theory Spec2Isabelle
  imports Main
begin

section \<open>The recently used languages (extension.ts)\<close>

text \<open>
  \<^verbatim>\<open>Array.prototype.findIndex\<close>: the index of the first element the predicate accepts,
  and \<open>-1\<close> when there is none.
\<close>

fun findIndex :: "('a \<Rightarrow> bool) \<Rightarrow> 'a list \<Rightarrow> int" where
  "findIndex p [] = - 1"
| "findIndex p (x # xs) =
     (if p x then 0
      else (let i = findIndex p xs in if i = - 1 then - 1 else i + 1))"

text \<open>
  \<^verbatim>\<open>Array.prototype.splice(start, deleteCount, ...items)\<close> for \<open>0 \<le> start\<close>: the list with
  \<open>deleteCount\<close> elements removed at \<open>start\<close> and \<open>items\<close> put in their place. The source
  mutates the module-level array \<open>recentlyUsed\<close>; the model returns the new array.
\<close>

definition splice :: "nat \<Rightarrow> nat \<Rightarrow> 'a list \<Rightarrow> 'a list \<Rightarrow> 'a list" where
  "splice start deleteCount items xs =
     take start xs @ items @ drop (start + deleteCount) xs"

definition updateLanguageList :: "string list \<Rightarrow> string \<Rightarrow> string list" where
  "updateLanguageList recentlyUsed selectedLanguage =
     (let index = findIndex (\<lambda>r. r = selectedLanguage) recentlyUsed;
          recentlyUsed1 =
            (if index \<noteq> - 1 then splice (nat index) 1 [] recentlyUsed else recentlyUsed)
      in splice 0 0 [selectedLanguage] recentlyUsed1)"


section \<open>Data model of the comment hover server (class Comment)\<close>

record Position =
  line :: nat
  character :: nat

record Range =
  range_start :: Position
  range_end :: Position

record TextDocument =
  uri :: string
  languageId :: string
  version :: int
  content :: string

record TextDocumentPositionParams =
  textDocument_uri :: string
  position :: Position

text \<open>
  \<open>ICommentBlock\<close>: what the host or \<open>CommentParse.computeText\<close> hands to \<open>getComment\<close>.
  The object the host builds has no \<open>humanize\<close> property, which the test
  \<^verbatim>\<open>if (block.humanize)\<close> reads as false.
\<close>

record ICommentBlock =
  humanize :: bool
  comment :: string
  block_range :: Range

record Hover =
  contents :: "string list"
  hover_range :: Range

text \<open>A grammar is an opaque handle; the model names it by the language it was loaded for.\<close>

datatype IGrammar = Grammar string

text \<open>
  Modelled from the spec: \<open>CommentParse\<close> (\<^verbatim>\<open>./syntax/CommentParse\<close> is not among the
  sources). The object keeps the three arguments of its constructor call in
  \<open>_getCommentParse\<close>: the document, the grammar and the value that \<open>multiLineMerge\<close> had
  when the object was built.
\<close>

record CommentParse =
  parse_textDocument :: TextDocument
  parse_grammar :: IGrammar
  parse_multiLineMerge :: bool

record ICommentTranslateSettings =
  multiLineMerge :: bool
  preferredLanguage :: string

text \<open>
  The argument of \<open>setSetting\<close>. Its \<open>preferredLanguage\<close> may be missing at run time
  (\<open>None\<close>) or the empty string; both are falsy for \<^verbatim>\<open>!newSetting.preferredLanguage\<close>.
\<close>

record NewSetting =
  new_multiLineMerge :: bool
  new_preferredLanguage :: "string option"

text \<open>An entry of the table \<^verbatim>\<open>languages.js\<close>: a display name and a language code.\<close>

record Language =
  lang_name :: string
  lang_value :: string

text \<open>How an awaited promise of a collaborator settles.\<close>

datatype 'a settled = Fulfilled 'a | Rejected string

text \<open>What \<open>getComment\<close> asks of its collaborators, in the order it asks.\<close>

datatype event =
    CreateGrammar string
  | SelectionContains TextDocumentPositionParams
  | ComputeText CommentParse Position
  | Translate string string

text \<open>
  What class \<open>Comment\<close> imports or is handed, none of it under the sources.
  \<^item> \<open>createGrammar\<close>. Modelled from the spec: \<open>TextMateService.createGrammar\<close>, the
    grammar registry's \<open>getGrammar(languageId)\<close>, a grammar or none, static per language id.
  \<^item> \<open>computeText\<close>. Modelled from the spec: \<open>CommentParse.computeText\<close>, the locate, merge
    and extract pipeline, which the spec describes as pure and deterministic: a function of
    the parse object and the position that yields a comment block or none.
  \<^item> \<open>sendRequest\<close>: the connection's request \<^verbatim>\<open>selectionContains\<close> to the host, which may
    reject.
  \<^item> \<open>translateApi\<close>: the package \<^verbatim>\<open>google-translate-open-api\<close>, called with the text and
    the target code. \<open>Fulfilled (Some t)\<close> is a response \<open>res\<close> with \<open>res.data\<close> truthy and
    \<open>res.data[0] = t\<close>; \<open>Fulfilled None\<close> is a falsy \<open>res\<close> or \<open>res.data\<close>.
  \<^item> \<open>humanizeString\<close>: the package \<^verbatim>\<open>humanize-string\<close>.
  \<^item> \<open>languages\<close>: the table \<^verbatim>\<open>languages.js\<close>.
\<close>

record Env =
  createGrammar :: "string \<Rightarrow> IGrammar option"
  computeText :: "CommentParse \<Rightarrow> Position \<Rightarrow> ICommentBlock option"
  sendRequest :: "TextDocumentPositionParams \<Rightarrow> ICommentBlock option settled"
  translateApi :: "string \<Rightarrow> string \<Rightarrow> string option settled"
  humanizeString :: "string \<Rightarrow> string"
  languages :: "Language list"

text \<open>
  The fields of a \<open>Comment\<close> object: the settings, the parse cache (a JavaScript \<open>Map\<close> from
  key strings) and the open documents of the \<open>TextDocuments\<close> manager it was given.
\<close>

record Comment =
  setting :: ICommentTranslateSettings
  commentParseCache :: "string \<rightharpoonup> CommentParse"
  documents :: "string \<rightharpoonup> TextDocument"

section \<open>The methods of class Comment\<close>

definition Comment_constructor :: "string \<Rightarrow> (string \<rightharpoonup> TextDocument) \<Rightarrow> Comment" where
  "Comment_constructor userLanguage docs =
     \<lparr>setting = \<lparr>multiLineMerge = False, preferredLanguage = userLanguage\<rparr>,
      commentParseCache = Map.empty,
      documents = docs\<rparr>"

text \<open>
  \<open>setSetting\<close> in its two steps. \<open>assignSetting\<close> is the object after
  \<^verbatim>\<open>this._setting = Object.assign(this._setting, newSetting)\<close>, where a falsy
  \<open>newSetting.preferredLanguage\<close> has been replaced by the stored one; \<open>setSetting\<close> then
  stores the code of the first language of the table that has the stored value as its name,
  or \<open>en\<close>.
\<close>

definition assignSetting :: "Comment \<Rightarrow> NewSetting \<Rightarrow> Comment" where
  "assignSetting c newSetting =
     c\<lparr>setting :=
         \<lparr>multiLineMerge = new_multiLineMerge newSetting,
          preferredLanguage =
            (case new_preferredLanguage newSetting of
               None \<Rightarrow> preferredLanguage (setting c)
             | Some l \<Rightarrow> if l = [] then preferredLanguage (setting c) else l)\<rparr>\<rparr>"

definition setSetting :: "Env \<Rightarrow> Comment \<Rightarrow> NewSetting \<Rightarrow> Comment" where
  "setSetting e c newSetting =
     (let c1 = assignSetting c newSetting
      in c1\<lparr>setting := (setting c1)\<lparr>preferredLanguage :=
             (case find (\<lambda>element. lang_name element = preferredLanguage (setting c1))
                        (languages e) of
                Some element \<Rightarrow> lang_value element
              | None \<Rightarrow> ''en'')\<rparr>\<rparr>)"

definition Comment_translate :: "Env \<Rightarrow> Comment \<Rightarrow> string \<Rightarrow> string settled \<times> event list" where
  "Comment_translate e c txt =
     (let target = preferredLanguage (setting c) in
      (case translateApi e txt target of
         Rejected m \<Rightarrow> Rejected m
       | Fulfilled res \<Rightarrow>
           (case res of
              Some t \<Rightarrow> Fulfilled t
            | None \<Rightarrow> Fulfilled ''Google Translate API Error''),
       [Translate txt target]))"

definition getSelectionContainPosition ::
  "Env \<Rightarrow> TextDocumentPositionParams \<Rightarrow> ICommentBlock option settled \<times> event list" where
  "getSelectionContainPosition e textDocumentPosition =
     (sendRequest e textDocumentPosition, [SelectionContains textDocumentPosition])"

definition cacheKey :: "TextDocument \<Rightarrow> string" where
  "cacheKey textDocument = languageId textDocument @ ''-'' @ uri textDocument"

definition removeCommentParse :: "Comment \<Rightarrow> TextDocument \<Rightarrow> Comment" where
  "removeCommentParse c textDocument =
     c\<lparr>commentParseCache := (commentParseCache c)(cacheKey textDocument := None)\<rparr>"

definition getCommentParse ::
  "Env \<Rightarrow> Comment \<Rightarrow> TextDocument \<Rightarrow> CommentParse option \<times> Comment \<times> event list" where
  "getCommentParse e c textDocument =
     (let key = cacheKey textDocument in
      if commentParseCache c key \<noteq> None then (commentParseCache c key, c, [])
      else
        (case createGrammar e (languageId textDocument) of
           None \<Rightarrow> (None, c, [CreateGrammar (languageId textDocument)])
         | Some grammar \<Rightarrow>
             (let parse = \<lparr>parse_textDocument = textDocument, parse_grammar = grammar,
                           parse_multiLineMerge = multiLineMerge (setting c)\<rparr>
              in (Some parse,
                  c\<lparr>commentParseCache := (commentParseCache c)(key \<mapsto> parse)\<rparr>,
                  [CreateGrammar (languageId textDocument)]))))"

text \<open>
  \<open>_getCommentParse\<close> after its await of \<open>createGrammar\<close>, on the state it finds when it
  resumes: the key and the document were read before the await, the grammar is the
  registry's answer, \<open>multiLineMerge\<close> is read now and the entry is filed now. When nothing
  arrives during the await this is the second half of \<open>getCommentParse\<close>.
\<close>

definition getCommentParse_resumed ::
  "Comment \<Rightarrow> TextDocument \<Rightarrow> IGrammar option \<Rightarrow> CommentParse option \<times> Comment" where
  "getCommentParse_resumed c textDocument grammar =
     (case grammar of
        None \<Rightarrow> (None, c)
      | Some g \<Rightarrow>
          (let parse = \<lparr>parse_textDocument = textDocument, parse_grammar = g,
                        parse_multiLineMerge = multiLineMerge (setting c)\<rparr>
           in (Some parse,
               c\<lparr>commentParseCache := (commentParseCache c)(cacheKey textDocument \<mapsto> parse)\<rparr>)))"

text \<open>
  \<open>getComment\<close> returns how its promise settles, the object's new state and the requests it
  made. \<^verbatim>\<open>a || b\<close> takes the host's block when there is one and calls \<open>computeText\<close>
  otherwise. An awaited promise that rejects makes \<open>getComment\<close> reject: the method has no
  handler of its own.
\<close>

definition getComment ::
  "Env \<Rightarrow> Comment \<Rightarrow> TextDocumentPositionParams \<Rightarrow> Hover option settled \<times> Comment \<times> event list" where
  "getComment e c textDocumentPosition =
     (case documents c (textDocument_uri textDocumentPosition) of
        None \<Rightarrow> (Fulfilled None, c, [])
      | Some textDocument \<Rightarrow>
          (case getCommentParse e c textDocument of
             (None, c1, ev1) \<Rightarrow> (Fulfilled None, c1, ev1)
           | (Some parse, c1, ev1) \<Rightarrow>
               (case getSelectionContainPosition e textDocumentPosition of
                  (Rejected m, ev2) \<Rightarrow> (Rejected m, c1, ev1 @ ev2)
                | (Fulfilled sel, ev2) \<Rightarrow>
                    (let (block, ev3) =
                           (case sel of
                              Some b \<Rightarrow> (Some b, [])
                            | None \<Rightarrow>
                                (computeText e parse (position textDocumentPosition),
                                 [ComputeText parse (position textDocumentPosition)]))
                     in case block of
                          None \<Rightarrow> (Fulfilled None, c1, ev1 @ ev2 @ ev3)
                        | Some b \<Rightarrow>
                            if humanize b then
                              (let h = humanizeString e (comment b) in
                               case Comment_translate e c1 h of
                                 (Rejected m, ev4) \<Rightarrow> (Rejected m, c1, ev1 @ ev2 @ ev3 @ ev4)
                               | (Fulfilled targetLanguageComment, ev4) \<Rightarrow>
                                   (Fulfilled (Some \<lparr>contents = [h @ '' => '' @ targetLanguageComment],
                                                    hover_range = block_range b\<rparr>),
                                    c1, ev1 @ ev2 @ ev3 @ ev4))
                            else
                              (case Comment_translate e c1 (comment b) of
                                 (Rejected m, ev4) \<Rightarrow> (Rejected m, c1, ev1 @ ev2 @ ev3 @ ev4)
                               | (Fulfilled targetLanguageComment, ev4) \<Rightarrow>
                                   (Fulfilled (Some \<lparr>contents = [targetLanguageComment],
                                                    hover_range = block_range b\<rparr>),
                                    c1, ev1 @ ev2 @ ev3 @ ev4))))))"

section \<open>Document notifications\<close>

text \<open>
  The constructor registers \<open>_removeCommentParse\<close> for the manager's events \<open>onDidClose\<close>
  and \<open>onDidChangeContent\<close>. The manager (package \<^verbatim>\<open>vscode-languageserver\<close>) stores an
  opened document and fires \<open>onDidChangeContent\<close> for it, replaces the content of an open
  document on a change and fires \<open>onDidChangeContent\<close>, and forgets a closed document and
  fires \<open>onDidClose\<close>; a change or close of a document that is not open does nothing.
\<close>

definition onDidClose :: "Comment \<Rightarrow> TextDocument \<Rightarrow> Comment" where
  "onDidClose c document = removeCommentParse c document"

definition onDidChangeContent :: "Comment \<Rightarrow> TextDocument \<Rightarrow> Comment" where
  "onDidChangeContent c document = removeCommentParse c document"

definition didOpen :: "Comment \<Rightarrow> TextDocument \<Rightarrow> Comment" where
  "didOpen c document =
     onDidChangeContent (c\<lparr>documents := (documents c)(uri document \<mapsto> document)\<rparr>) document"

definition didChange :: "Comment \<Rightarrow> string \<Rightarrow> int \<Rightarrow> string \<Rightarrow> Comment" where
  "didChange c u v txt =
     (case documents c u of
        None \<Rightarrow> c
      | Some syncedDocument \<Rightarrow>
          (let document = syncedDocument\<lparr>version := v, content := txt\<rparr>
           in onDidChangeContent (c\<lparr>documents := (documents c)(u \<mapsto> document)\<rparr>) document))"

definition didClose :: "Comment \<Rightarrow> string \<Rightarrow> Comment" where
  "didClose c u =
     (case documents c u of
        None \<Rightarrow> c
      | Some syncedDocument \<Rightarrow>
          onDidClose (c\<lparr>documents := (documents c)(u := None)\<rparr>) syncedDocument)"

text \<open>
  States that the server reaches from its start in runs where every query has returned
  before the next notification, configuration update or query arrives. A document is
  opened only while no document of that URI is open, as the protocol requires of the client.
  \<open>getComment\<close> suspends at its awaits, and a notification that arrives meanwhile runs its
  handler before the query resumes, so a server reaches these states and others besides:
  \<open>reachable\<close> shows that a state can arise and is no bound on the states that can.
\<close>

inductive reachable :: "Env \<Rightarrow> string \<Rightarrow> Comment \<Rightarrow> bool" for e :: Env and userLanguage :: string where
  start: "reachable e userLanguage (Comment_constructor userLanguage Map.empty)"
| opened: "reachable e userLanguage c \<Longrightarrow> documents c (uri d) = None \<Longrightarrow>
     reachable e userLanguage (didOpen c d)"
| changed: "reachable e userLanguage c \<Longrightarrow> reachable e userLanguage (didChange c u v txt)"
| closed: "reachable e userLanguage c \<Longrightarrow> reachable e userLanguage (didClose c u)"
| configured: "reachable e userLanguage c \<Longrightarrow> reachable e userLanguage (setSetting e c n)"
| queried: "reachable e userLanguage c \<Longrightarrow> getComment e c q = (r, c', ev) \<Longrightarrow>
     reachable e userLanguage c'"

section \<open>The host's handler of selectionContains (extension.ts)\<close>

text \<open>
  The active editor as the handler reads it: the URI of its document, its selections and
  the text of a range of its document. A selection is empty when its two ends are equal,
  and contains a position that is neither before its start nor after its end.
\<close>

record TextEditor =
  document_uri :: string
  selections :: "Range list"
  getText :: "Range \<Rightarrow> string"

definition isBeforeOrEqual :: "Position \<Rightarrow> Position \<Rightarrow> bool" where
  "isBeforeOrEqual p q \<longleftrightarrow> line p < line q \<or> (line p = line q \<and> character p \<le> character q)"

definition isEmpty :: "Range \<Rightarrow> bool" where
  "isEmpty r \<longleftrightarrow> range_start r = range_end r"

definition contains :: "Range \<Rightarrow> Position \<Rightarrow> bool" where
  "contains r p \<longleftrightarrow> isBeforeOrEqual (range_start r) p \<and> isBeforeOrEqual p (range_end r)"

definition selectionContains ::
  "TextEditor option \<Rightarrow> TextDocumentPositionParams \<Rightarrow> ICommentBlock option" where
  "selectionContains activeTextEditor textDocumentPosition =
     (case activeTextEditor of
        None \<Rightarrow> None
      | Some editor \<Rightarrow>
          if document_uri editor = textDocument_uri textDocumentPosition then
            (case find (\<lambda>selection. \<not> isEmpty selection \<and>
                          contains selection (position textDocumentPosition))
                       (selections editor) of
               Some selection \<Rightarrow>
                 Some \<lparr>humanize = False, comment = getText editor selection,
                       block_range = selection\<rparr>
             | None \<Rightarrow> None)
          else None)"

section \<open>Translating a selection (extension.ts)\<close>


record ProxyConfig =
  host :: "string option"
  port :: "string option"
  username :: "string option"
  password :: "string option"






record TranslateRes =
  selection :: Range
  translation :: string








section \<open>Predicates of the properties\<close>


fun isTranslate :: "event \<Rightarrow> bool" where
  "isTranslate (Translate txt target) = True"
| "isTranslate ev = False"


fun isComputeText :: "event \<Rightarrow> bool" where
  "isComputeText (ComputeText parse pos) = True"
| "isComputeText ev = False"

section \<open>Example documents and collaborators\<close>

text \<open>
  Concrete inputs for the examples below. The collaborators are stand-ins: a registry with
  grammars for two languages, a pipeline that answers on lines 0 and 1 only (on line 1 with
  the merged text when the parse was built with \<open>multiLineMerge\<close>), a host that answers from
  an editor, a translator that prefixes the target code, and for \<open>humanizeString\<close> the answer
  of the package \<^verbatim>\<open>humanize-string\<close> on \<open>do_it_now\<close>: the package lower-cases the text,
  puts a space for each run of underscores and hyphens, and upper-cases the first letter.
\<close>

definition example_js :: TextDocument where
  "example_js = \<lparr>uri = ''file:///a.js'', languageId = ''javascript'', version = 1,
                  content = ''// do_it_now''\<rparr>"

definition example_txt :: TextDocument where
  "example_txt = \<lparr>uri = ''file:///b.txt'', languageId = ''plaintext'', version = 1,
                   content = ''hello world''\<rparr>"

definition example_objc :: TextDocument where
  "example_objc = \<lparr>uri = ''file:///x'', languageId = ''objective-c'', version = 1,
                    content = ''// do_it_now''\<rparr>"

definition example_obj :: TextDocument where
  "example_obj = \<lparr>uri = ''c-file:///x'', languageId = ''objective'', version = 1,
                   content = ''plain''\<rparr>"

definition example_range :: "nat \<Rightarrow> nat \<Rightarrow> nat \<Rightarrow> nat \<Rightarrow> Range" where
  "example_range l1 c1 l2 c2 =
     \<lparr>range_start = \<lparr>line = l1, character = c1\<rparr>, range_end = \<lparr>line = l2, character = c2\<rparr>\<rparr>"

definition example_computeText :: "CommentParse \<Rightarrow> Position \<Rightarrow> ICommentBlock option" where
  "example_computeText parse pos =
     (if line pos = 0 then
        Some \<lparr>humanize = True, comment = ''do_it_now'', block_range = example_range 0 0 0 12\<rparr>
      else if line pos = 1 then
        (if parse_multiLineMerge parse then
           Some \<lparr>humanize = False, comment = ''part one part two'',
                 block_range = example_range 1 0 2 11\<rparr>
         else
           Some \<lparr>humanize = False, comment = ''part one'', block_range = example_range 1 0 1 11\<rparr>)
      else None)"

definition example_editor :: "string \<Rightarrow> TextEditor" where
  "example_editor u =
     \<lparr>document_uri = u, selections = [example_range 3 0 3 0, example_range 5 0 5 5],
      getText = (\<lambda>r. ''hello'')\<rparr>"

definition example_env :: "TextEditor option \<Rightarrow> Env" where
  "example_env editor =
     \<lparr>createGrammar =
        (\<lambda>l. if l = ''javascript'' \<or> l = ''objective-c'' then Some (Grammar l) else None),
      computeText = example_computeText,
      sendRequest = (\<lambda>q. Fulfilled (selectionContains editor q)),
      translateApi = (\<lambda>txt target. Fulfilled (Some (target @ '': '' @ txt))),
      humanizeString = (\<lambda>s. if s = ''do_it_now'' then ''Do it now'' else s),
      languages = [\<lparr>lang_name = ''English'', lang_value = ''en''\<rparr>,
                   \<lparr>lang_name = ''French'', lang_value = ''fr''\<rparr>]\<rparr>"

text \<open>The same collaborators with a translator that cannot be reached.\<close>

definition example_offline :: Env where
  "example_offline = (example_env None)\<lparr>translateApi := (\<lambda>txt target. Rejected ''ENOTFOUND'')\<rparr>"

definition example_query :: "string \<Rightarrow> nat \<Rightarrow> nat \<Rightarrow> TextDocumentPositionParams" where
  "example_query u l ch = \<lparr>textDocument_uri = u, position = \<lparr>line = l, character = ch\<rparr>\<rparr>"

definition example_start :: Comment where
  "example_start = Comment_constructor ''en'' Map.empty"



section \<open>Properties of the recently used list\<close>

lemma findIndex_lower: "- 1 \<le> findIndex p xs"
  by (induction xs) (auto simp: Let_def)

lemma findIndex_absent: "findIndex p xs = - 1 \<longleftrightarrow> (\<forall>x \<in> set xs. \<not> p x)"
proof (induction xs)
  case Nil
  show ?case by simp
next
  case (Cons x xs)
  have "findIndex p xs + 1 \<noteq> - 1"
    using findIndex_lower [of p xs] by arith
  with Cons show ?case by (auto simp: Let_def)
qed

lemma splice_findIndex_remove1:
  "findIndex (\<lambda>r. r = l) xs \<noteq> - 1 \<Longrightarrow>
     splice (nat (findIndex (\<lambda>r. r = l) xs)) 1 [] xs = remove1 l xs"
proof (induction xs)
  case Nil
  then show ?case by simp
next
  case (Cons x xs)
  show ?case
  proof (cases "x = l")
    case True
    then show ?thesis by (simp add: splice_def)
  next
    case False
    with Cons.prems have present: "findIndex (\<lambda>r. r = l) xs \<noteq> - 1"
      by (auto simp: Let_def split: if_splits)
    have nonneg: "0 \<le> findIndex (\<lambda>r. r = l) xs"
      using present findIndex_lower [of "\<lambda>r. r = l" xs] by arith
    have "nat (findIndex (\<lambda>r. r = l) xs + 1) = Suc (nat (findIndex (\<lambda>r. r = l) xs))"
      using nonneg by simp
    with False present Cons.IH show ?thesis
      by (simp add: splice_def Let_def)
  qed
qed

lemma updateLanguageList_eq:
  "updateLanguageList xs l = l # remove1 l xs"
proof (cases "findIndex (\<lambda>r. r = l) xs = - 1")
  case True
  then have "l \<notin> set xs" by (auto simp: findIndex_absent)
  then have "remove1 l xs = xs" by (simp add: remove1_idem)
  with True show ?thesis by (simp add: updateLanguageList_def splice_def)
next
  case False
  then have "splice (nat (findIndex (\<lambda>r. r = l) xs)) 1 [] xs = remove1 l xs"
    by (rule splice_findIndex_remove1)
  moreover have "splice 0 0 [l] (remove1 l xs) = l # remove1 l xs"
    by (simp add: splice_def)
  ultimately show ?thesis
    using False by (simp add: updateLanguageList_def)
qed

lemma filter_remove1_other: "filter (\<lambda>r. r \<noteq> l) (remove1 l xs) = filter (\<lambda>r. r \<noteq> l) xs"
  by (induction xs) auto

text \<open>
  C9. After \<open>updateLanguageList\<close> the selected language stands at index 0 of the recently
  used list. When the list had no duplicates before the call it has none after it: the
  selected language occurs exactly once, and the other entries are the old ones in their
  old order.
\<close>

theorem updateLanguageList_front_distinct:
  "updateLanguageList xs l ! 0 = l \<and>
   (distinct xs \<longrightarrow>
      distinct (updateLanguageList xs l) \<and>
      count_list (updateLanguageList xs l) l = 1 \<and>
      filter (\<lambda>r. r \<noteq> l) (updateLanguageList xs l) = filter (\<lambda>r. r \<noteq> l) xs)"
proof -
  have front: "updateLanguageList xs l ! 0 = l"
    by (simp add: updateLanguageList_eq)
  have others: "filter (\<lambda>r. r \<noteq> l) (updateLanguageList xs l) = filter (\<lambda>r. r \<noteq> l) xs"
    by (simp add: updateLanguageList_eq filter_remove1_other)
  have once: "count_list (updateLanguageList xs l) l = 1" if "distinct xs"
  proof -
    from that have "l \<notin> set (remove1 l xs)" by simp
    then have "count_list (remove1 l xs) l = 0"
      using count_list_0_iff [of "remove1 l xs" l] by blast
    then show ?thesis by (simp add: updateLanguageList_eq)
  qed
  have dist: "distinct (updateLanguageList xs l)" if "distinct xs"
    using that by (simp add: updateLanguageList_eq)
  from front others once dist show ?thesis by blast
qed

theorem updateLanguageList_front_distinct_witness:
  "updateLanguageList [''French'', ''German'', ''Spanish''] ''German''
     = [''German'', ''French'', ''Spanish''] \<and>
   distinct [''French'', ''German'', ''Spanish''] \<and>
   distinct (updateLanguageList [''French'', ''German'', ''Spanish''] ''German'') \<and>
   count_list (updateLanguageList [''French'', ''German'', ''Spanish''] ''German'') ''German'' = 1"
proof -
  have d: "distinct [''French'', ''German'', ''Spanish'']" by simp
  have v: "updateLanguageList [''French'', ''German'', ''Spanish''] ''German''
             = [''German'', ''French'', ''Spanish'']"
    by (simp add: updateLanguageList_def splice_def Let_def)
  from d v updateLanguageList_front_distinct [of "[''French'', ''German'', ''Spanish'']" "''German''"]
  show ?thesis by blast
qed

section \<open>The parse cache\<close>

lemmas example_defs =
  example_js_def example_txt_def example_objc_def example_obj_def example_range_def
  example_computeText_def example_editor_def example_env_def example_offline_def
  example_query_def example_start_def

lemmas server_defs =
  Comment_constructor_def didOpen_def didChange_def didClose_def onDidClose_def
  onDidChangeContent_def removeCommentParse_def cacheKey_def getComment_def
  getCommentParse_def getSelectionContainPosition_def Comment_translate_def
  selectionContains_def isEmpty_def contains_def isBeforeOrEqual_def setSetting_def
  assignSetting_def Let_def

lemma getComment_state:
  "fst (snd (getComment e c q)) =
     (case documents c (textDocument_uri q) of
        None \<Rightarrow> c
      | Some d \<Rightarrow> fst (snd (getCommentParse e c d)))"
  by (simp add: getComment_def getSelectionContainPosition_def Comment_translate_def Let_def
           split: option.split prod.split settled.split)

lemma getCommentParse_state:
  "fst (snd (getCommentParse e c d)) =
     (if commentParseCache c (cacheKey d) = None then
        (case createGrammar e (languageId d) of
           None \<Rightarrow> c
         | Some g \<Rightarrow> c\<lparr>commentParseCache := (commentParseCache c)(cacheKey d \<mapsto>
              \<lparr>parse_textDocument = d, parse_grammar = g,
               parse_multiLineMerge = multiLineMerge (setting c)\<rparr>)\<rparr>)
      else c)"
  by (simp add: getCommentParse_def Let_def split: option.split)

lemma getCommentParse_hit:
  "commentParseCache c (cacheKey d) = Some p \<Longrightarrow> getCommentParse e c d = (Some p, c, [])"
  by (simp add: getCommentParse_def)

lemma getCommentParse_no_grammar:
  "commentParseCache c (cacheKey d) = None \<Longrightarrow> createGrammar e (languageId d) = None \<Longrightarrow>
     getCommentParse e c d = (None, c, [CreateGrammar (languageId d)])"
  by (simp add: getCommentParse_def)

lemma getCommentParse_built:
  "commentParseCache c (cacheKey d) = None \<Longrightarrow> createGrammar e (languageId d) = Some g \<Longrightarrow>
     getCommentParse e c d =
       (Some \<lparr>parse_textDocument = d, parse_grammar = g,
               parse_multiLineMerge = multiLineMerge (setting c)\<rparr>,
        c\<lparr>commentParseCache := (commentParseCache c)(cacheKey d \<mapsto>
            \<lparr>parse_textDocument = d, parse_grammar = g,
             parse_multiLineMerge = multiLineMerge (setting c)\<rparr>)\<rparr>,
        [CreateGrammar (languageId d)])"
  by (simp add: getCommentParse_def Let_def)

lemma cache_after_query:
  "commentParseCache (fst (snd (getComment e c q))) k \<noteq> commentParseCache c k \<Longrightarrow>
     commentParseCache c k = None \<and>
     (\<exists>d. documents c (textDocument_uri q) = Some d \<and> k = cacheKey d)"
  by (auto simp: getComment_state getCommentParse_state split: option.splits if_splits)

lemma cache_first_query:
  "documents c (textDocument_uri q) = Some d \<Longrightarrow> commentParseCache c (cacheKey d) = None \<Longrightarrow>
   createGrammar e (languageId d) = Some g \<Longrightarrow>
     commentParseCache (fst (snd (getComment e c q))) (cacheKey d) =
       Some \<lparr>parse_textDocument = d, parse_grammar = g,
             parse_multiLineMerge = multiLineMerge (setting c)\<rparr>"
  by (simp add: getComment_state getCommentParse_state)

lemma cache_removed:
  "documents c u = Some d \<Longrightarrow>
     commentParseCache (didChange c u v t) (cacheKey d) = None \<and>
     commentParseCache (didClose c u) (cacheKey d) = None"
  by (simp add: didChange_def didClose_def onDidChangeContent_def onDidClose_def
        removeCommentParse_def cacheKey_def Let_def)

lemma cache_setSetting: "commentParseCache (setSetting e c n) = commentParseCache c"
  by (simp add: setSetting_def assignSetting_def Let_def)

lemma cache_didOpen: "commentParseCache (didOpen c d) (cacheKey d) = None"
  by (simp add: didOpen_def onDidChangeContent_def removeCommentParse_def)


section \<open>Queries\<close>

lemma getCommentParse_setting:
  "getCommentParse e c d = (po, c1, ev1) \<Longrightarrow> setting c1 = setting c \<and> documents c1 = documents c"
  by (auto simp: getCommentParse_def Let_def split: if_splits option.splits)


lemma getCommentParse_None:
  "getCommentParse e c d = (None, c1, ev1) \<Longrightarrow>
     commentParseCache c (cacheKey d) = None \<and> createGrammar e (languageId d) = None \<and> c1 = c
     \<and> ev1 = [CreateGrammar (languageId d)]"
  by (auto simp: getCommentParse_def Let_def split: if_splits option.splits)

lemma getComment_no_document:
  "documents c (textDocument_uri q) = None \<Longrightarrow> getComment e c q = (Fulfilled None, c, [])"
  by (simp add: getComment_def)

lemma getComment_no_parse:
  "documents c (textDocument_uri q) = Some d \<Longrightarrow> getCommentParse e c d = (None, c1, ev1) \<Longrightarrow>
     getComment e c q = (Fulfilled None, c1, ev1)"
  by (simp add: getComment_def)

lemma getComment_host_rejects:
  "documents c (textDocument_uri q) = Some d \<Longrightarrow> getCommentParse e c d = (Some p, c1, ev1) \<Longrightarrow>
   sendRequest e q = Rejected m \<Longrightarrow>
     getComment e c q = (Rejected m, c1, ev1 @ [SelectionContains q])"
  by (simp add: getComment_def getSelectionContainPosition_def)

lemma getComment_no_block:
  "documents c (textDocument_uri q) = Some d \<Longrightarrow> getCommentParse e c d = (Some p, c1, ev1) \<Longrightarrow>
   sendRequest e q = Fulfilled None \<Longrightarrow> computeText e p (position q) = None \<Longrightarrow>
     getComment e c q = (Fulfilled None, c1, ev1 @ [SelectionContains q, ComputeText p (position q)])"
  by (simp add: getComment_def getSelectionContainPosition_def)

text \<open>The hover built from a block and the translator's answer.\<close>

lemma getComment_host_block:
  "documents c (textDocument_uri q) = Some d \<Longrightarrow> getCommentParse e c d = (Some p, c1, ev1) \<Longrightarrow>
   sendRequest e q = Fulfilled (Some b) \<Longrightarrow>
     getComment e c q =
       (let sent = (if humanize b then humanizeString e (comment b) else comment b) in
        (case translateApi e sent (preferredLanguage (setting c)) of
           Rejected m \<Rightarrow> Rejected m
         | Fulfilled res \<Rightarrow>
             Fulfilled (Some \<lparr>contents =
                 [(if humanize b then sent @ '' => '' else []) @
                  (case res of Some t \<Rightarrow> t | None \<Rightarrow> ''Google Translate API Error'')],
               hover_range = block_range b\<rparr>),
         c1, ev1 @ [SelectionContains q, Translate sent (preferredLanguage (setting c))]))"
  by (frule getCommentParse_setting)
     (simp add: getComment_def getSelectionContainPosition_def Comment_translate_def Let_def
           split: settled.split option.split)

lemma getComment_pipeline_block:
  "documents c (textDocument_uri q) = Some d \<Longrightarrow> getCommentParse e c d = (Some p, c1, ev1) \<Longrightarrow>
   sendRequest e q = Fulfilled None \<Longrightarrow> computeText e p (position q) = Some b \<Longrightarrow>
     getComment e c q =
       (let sent = (if humanize b then humanizeString e (comment b) else comment b) in
        (case translateApi e sent (preferredLanguage (setting c)) of
           Rejected m \<Rightarrow> Rejected m
         | Fulfilled res \<Rightarrow>
             Fulfilled (Some \<lparr>contents =
                 [(if humanize b then sent @ '' => '' else []) @
                  (case res of Some t \<Rightarrow> t | None \<Rightarrow> ''Google Translate API Error'')],
               hover_range = block_range b\<rparr>),
         c1, ev1 @ [SelectionContains q, ComputeText p (position q),
                    Translate sent (preferredLanguage (setting c))]))"
  by (frule getCommentParse_setting)
     (simp add: getComment_def getSelectionContainPosition_def Comment_translate_def Let_def
           split: settled.split option.split)

lemma getCommentParse_events:
  "getCommentParse e c d = (po, c1, ev1) \<Longrightarrow>
     filter isTranslate ev1 = [] \<and> filter isComputeText ev1 = []"
  by (auto simp: getCommentParse_def Let_def split: if_splits option.splits)



text \<open>
  C6 (amended). For the block that \<open>getComment\<close> works on (the host's, or else the
  pipeline's), exactly one text is sent to the translator: \<open>humanizeString\<close> of the comment
  when the block has \<open>humanize\<close> set, the comment as it is otherwise. With \<open>humanize\<close> the
  hover shows the humanized text, an arrow and the translation; without it, the translation
  alone. For the comment \<open>do_it_now\<close> the text sent is what the package returns for it,
  \<open>Do it now\<close>.
\<close>

theorem translated_text_humanized:
  assumes doc: "documents c (textDocument_uri q) = Some d"
    and parse: "getCommentParse e c d = (Some p, c1, ev1)"
    and host: "sendRequest e q = Fulfilled sel"
    and block: "(case sel of Some hb \<Rightarrow> Some hb | None \<Rightarrow> computeText e p (position q)) = Some b"
  shows "filter isTranslate (snd (snd (getComment e c q))) =
           [Translate (if humanize b then humanizeString e (comment b) else comment b)
              (preferredLanguage (setting c))] \<and>
         (humanize b \<longrightarrow>
            (\<forall>t. translateApi e (humanizeString e (comment b)) (preferredLanguage (setting c))
                   = Fulfilled (Some t) \<longrightarrow>
                 fst (getComment e c q) =
                   Fulfilled (Some \<lparr>contents = [humanizeString e (comment b) @ '' => '' @ t],
                                    hover_range = block_range b\<rparr>))) \<and>
         (\<not> humanize b \<longrightarrow>
            (\<forall>t. translateApi e (comment b) (preferredLanguage (setting c)) = Fulfilled (Some t) \<longrightarrow>
                 fst (getComment e c q) =
                   Fulfilled (Some \<lparr>contents = [t], hover_range = block_range b\<rparr>))) \<and>
         (humanize b \<and> comment b = ''do_it_now'' \<and>
            humanizeString e ''do_it_now'' = ''Do it now'' \<longrightarrow>
            filter isTranslate (snd (snd (getComment e c q))) =
              [Translate ''Do it now'' (preferredLanguage (setting c))])"
proof (cases sel)
  case None
  with block have pipe: "computeText e p (position q) = Some b" by simp
  from host None have "sendRequest e q = Fulfilled None" by simp
  note run = getComment_pipeline_block [OF doc parse this pipe]
  from getCommentParse_events [OF parse] show ?thesis
    by (simp add: run Let_def)
next
  case (Some hb)
  with block have "hb = b" by simp
  with host Some have "sendRequest e q = Fulfilled (Some b)" by simp
  note run = getComment_host_block [OF doc parse this]
  from getCommentParse_events [OF parse] show ?thesis
    by (simp add: run Let_def)
qed

text \<open>
  The claim as stated fails in its example: with the package's answer the text sent for the
  comment \<open>do_it_now\<close> is \<open>Do it now\<close>, which is not \<open>do it now\<close>.
\<close>

theorem humanized_text_capitalised:
  "computeText (example_env None)
     \<lparr>parse_textDocument = example_js, parse_grammar = Grammar ''javascript'',
      parse_multiLineMerge = False\<rparr> (position (example_query ''file:///a.js'' 0 3))
     = Some \<lparr>humanize = True, comment = ''do_it_now'', block_range = example_range 0 0 0 12\<rparr> \<and>
   filter isTranslate
     (snd (snd (getComment (example_env None) (didOpen example_start example_js)
                  (example_query ''file:///a.js'' 0 3))))
     = [Translate ''Do it now'' ''en''] \<and>
   ''Do it now'' \<noteq> ''do it now''"
  by (simp add: example_defs server_defs)

theorem translated_text_humanized_witness:
  "documents (didOpen example_start example_js) (textDocument_uri (example_query ''file:///a.js'' 0 3))
     = Some example_js \<and>
   sendRequest (example_env None) (example_query ''file:///a.js'' 0 3) = Fulfilled None \<and>
   computeText (example_env None)
     \<lparr>parse_textDocument = example_js, parse_grammar = Grammar ''javascript'',
      parse_multiLineMerge = False\<rparr> (position (example_query ''file:///a.js'' 0 3))
     = Some \<lparr>humanize = True, comment = ''do_it_now'', block_range = example_range 0 0 0 12\<rparr> \<and>
   filter isTranslate
     (snd (snd (getComment (example_env None) (didOpen example_start example_js)
                  (example_query ''file:///a.js'' 0 3))))
     = [Translate ''Do it now'' ''en''] \<and>
   fst (getComment (example_env None) (didOpen example_start example_js)
          (example_query ''file:///a.js'' 0 3))
     = Fulfilled (Some \<lparr>contents = [''Do it now => en: Do it now''],
                       hover_range = example_range 0 0 0 12\<rparr>)"
proof -
  let ?e = "example_env None"
  let ?s = "didOpen example_start example_js"
  let ?q = "example_query ''file:///a.js'' 0 3"
  let ?p = "\<lparr>parse_textDocument = example_js, parse_grammar = Grammar ''javascript'',
             parse_multiLineMerge = False\<rparr>"
  let ?b = "\<lparr>humanize = True, comment = ''do_it_now'', block_range = example_range 0 0 0 12\<rparr>"
  have doc: "documents ?s (textDocument_uri ?q) = Some example_js"
    by (simp add: example_defs server_defs)
  have parse: "getCommentParse ?e ?s example_js =
      (Some ?p, fst (snd (getCommentParse ?e ?s example_js)), [CreateGrammar ''javascript''])"
    by (simp add: example_defs server_defs)
  have host: "sendRequest ?e ?q = Fulfilled None"
    by (simp add: example_defs server_defs)
  have pipe: "computeText ?e ?p (position ?q) = Some ?b"
    by (simp add: example_defs)
  then have block: "(case None of Some hb \<Rightarrow> Some hb | None \<Rightarrow> computeText ?e ?p (position ?q)) = Some ?b"
    by simp
  have hum: "humanizeString ?e ''do_it_now'' = ''Do it now''"
    by (simp add: example_defs)
  have lang: "preferredLanguage (setting ?s) = ''en''"
    by (simp add: example_defs server_defs)
  have tr: "translateApi ?e ''Do it now'' ''en'' = Fulfilled (Some ''en: Do it now'')"
    by (simp add: example_defs)
  from translated_text_humanized [OF doc parse host block] hum lang tr
  have "filter isTranslate (snd (snd (getComment ?e ?s ?q))) = [Translate ''Do it now'' ''en'']"
    and "fst (getComment ?e ?s ?q) =
           Fulfilled (Some \<lparr>contents = [''Do it now => en: Do it now''],
                             hover_range = example_range 0 0 0 12\<rparr>)"
    by simp_all
  with doc host pipe show ?thesis by blast
qed






section \<open>The host and the faults of the collaborators\<close>

lemma find_Some_member: "find P xs = Some x \<Longrightarrow> x \<in> set xs \<and> P x"
  by (induction xs) (auto split: if_splits)

lemma selectionContains_Some:
  assumes "selectionContains ed q = Some b"
  shows "\<exists>editor s. ed = Some editor \<and> document_uri editor = textDocument_uri q \<and>
           s \<in> set (selections editor) \<and> \<not> isEmpty s \<and> contains s (position q) \<and>
           b = \<lparr>humanize = False, comment = getText editor s, block_range = s\<rparr>"
proof (cases ed)
  case None
  with assms show ?thesis by (simp add: selectionContains_def)
next
  case (Some editor)
  with assms have u: "document_uri editor = textDocument_uri q"
    by (simp add: selectionContains_def split: if_splits)
  with assms Some obtain s where
    f: "find (\<lambda>selection. \<not> isEmpty selection \<and> contains selection (position q))
          (selections editor) = Some s"
    and b: "b = \<lparr>humanize = False, comment = getText editor s, block_range = s\<rparr>"
    by (auto simp: selectionContains_def split: option.splits)
  from find_Some_member [OF f] Some u b show ?thesis by blast
qed

lemma selectionContains_None:
  "selectionContains ed q = None \<longleftrightarrow>
     (\<forall>editor. ed = Some editor \<and> document_uri editor = textDocument_uri q \<longrightarrow>
        (\<forall>s \<in> set (selections editor). isEmpty s \<or> \<not> contains s (position q)))"
  by (cases ed) (auto simp: selectionContains_def find_None_iff split: option.splits dest: find_Some_member)

lemma getComment_asks_host:
  assumes doc: "documents c (textDocument_uri q) = Some d"
    and parse: "getCommentParse e c d = (Some p, c1, ev1)"
  shows "take (Suc (length ev1)) (snd (snd (getComment e c q))) = ev1 @ [SelectionContains q] \<and>
     filter isComputeText (snd (snd (getComment e c q))) =
       (if sendRequest e q = Fulfilled None then [ComputeText p (position q)] else []) \<and>
     (\<forall>b. sendRequest e q = Fulfilled (Some b) \<longrightarrow>
        snd (snd (getComment e c q)) =
          ev1 @ [SelectionContains q,
                 Translate (if humanize b then humanizeString e (comment b) else comment b)
                   (preferredLanguage (setting c))] \<and>
        fst (getComment e c q) \<noteq> Fulfilled None \<and>
        (\<forall>h. fst (getComment e c q) = Fulfilled (Some h) \<longrightarrow> hover_range h = block_range b))"
proof -
  note evs = getCommentParse_events [OF parse]
  show ?thesis
  proof (cases "sendRequest e q")
    case (Rejected m)
    show ?thesis
      using evs by (simp add: getComment_host_rejects [OF doc parse Rejected] Rejected)
  next
    case (Fulfilled sel)
    show ?thesis
    proof (cases sel)
      case (Some b)
      with Fulfilled have h: "sendRequest e q = Fulfilled (Some b)" by simp
      show ?thesis
        using evs
        by (auto simp: getComment_host_block [OF doc parse h] h Let_def split: settled.splits)
    next
      case None
      with Fulfilled have h: "sendRequest e q = Fulfilled None" by simp
      show ?thesis
      proof (cases "computeText e p (position q)")
        case None
        show ?thesis
          using evs by (simp add: getComment_no_block [OF doc parse h None] h)
      next
        case (Some b)
        show ?thesis
          using evs by (simp add: getComment_pipeline_block [OF doc parse h Some] h Let_def)
      qed
    qed
  qed
qed

lemma getComment_host_asked_iff:
  "SelectionContains q \<in> set (snd (snd (getComment e c q))) \<longleftrightarrow>
     (\<exists>d p c1 ev1. documents c (textDocument_uri q) = Some d \<and>
        getCommentParse e c d = (Some p, c1, ev1))"
proof (cases "documents c (textDocument_uri q)")
  case None
  then show ?thesis by (simp add: getComment_no_document)
next
  case (Some d)
  obtain po c1 ev1 where parse: "getCommentParse e c d = (po, c1, ev1)"
    by (cases "getCommentParse e c d") auto
  show ?thesis
  proof (cases po)
    case None
    with parse have p0: "getCommentParse e c d = (None, c1, ev1)" by simp
    from getCommentParse_None [OF p0] have "ev1 = [CreateGrammar (languageId d)]" by simp
    with Some p0 show ?thesis by (simp add: getComment_no_parse [OF Some p0])
  next
    case (Some p)
    with parse have p1: "getCommentParse e c d = (Some p, c1, ev1)" by simp
    note doc = \<open>documents c (textDocument_uri q) = Some d\<close>
    from getComment_asks_host [OF doc p1]
    have "take (Suc (length ev1)) (snd (snd (getComment e c q))) = ev1 @ [SelectionContains q]"
      by blast
    then have "SelectionContains q \<in> set (take (Suc (length ev1)) (snd (snd (getComment e c q))))"
      by simp
    then have "SelectionContains q \<in> set (snd (snd (getComment e c q)))"
      by (rule in_set_takeD)
    with doc p1 show ?thesis by blast
  qed
qed

text \<open>
  C1 (amended). A query on a document that is not open, or for which there is no parse
  object (nothing cached and no grammar), returns nothing and does not ask the host: the
  host is asked exactly when a parse object is at hand. Then the host is asked for a
  selection block right after the parse step and before any extraction or translation;
  \<open>computeText\<close> runs exactly when the host answers with no block; a block of the host is
  the one translated, and the hover carries its range. The host's handler supplies a block
  only from an active editor whose document URI is the queried one and from a non-empty
  selection of it that contains the position.
\<close>

theorem host_block_first:
  "(documents c (textDocument_uri q) = None \<longrightarrow> getComment e c q = (Fulfilled None, c, [])) \<and>
   (\<forall>d c1 ev1. documents c (textDocument_uri q) = Some d \<and>
        getCommentParse e c d = (None, c1, ev1) \<longrightarrow>
      getComment e c q = (Fulfilled None, c, [CreateGrammar (languageId d)])) \<and>
   (SelectionContains q \<in> set (snd (snd (getComment e c q))) \<longleftrightarrow>
      (\<exists>d p c1 ev1. documents c (textDocument_uri q) = Some d \<and>
         getCommentParse e c d = (Some p, c1, ev1))) \<and>
   (\<forall>d p c1 ev1. documents c (textDocument_uri q) = Some d \<and>
        getCommentParse e c d = (Some p, c1, ev1) \<longrightarrow>
      take (Suc (length ev1)) (snd (snd (getComment e c q))) = ev1 @ [SelectionContains q] \<and>
      filter isComputeText ev1 = [] \<and> filter isTranslate ev1 = [] \<and>
      filter isComputeText (snd (snd (getComment e c q))) =
        (if sendRequest e q = Fulfilled None then [ComputeText p (position q)] else []) \<and>
      (\<forall>b. sendRequest e q = Fulfilled (Some b) \<longrightarrow>
         snd (snd (getComment e c q)) =
           ev1 @ [SelectionContains q,
                  Translate (if humanize b then humanizeString e (comment b) else comment b)
                    (preferredLanguage (setting c))] \<and>
         fst (getComment e c q) \<noteq> Fulfilled None \<and>
         (\<forall>h. fst (getComment e c q) = Fulfilled (Some h) \<longrightarrow>
            hover_range h = block_range b))) \<and>
   (\<forall>ed b. selectionContains ed q = Some b \<longrightarrow>
      (\<exists>editor s. ed = Some editor \<and> document_uri editor = textDocument_uri q \<and>
         s \<in> set (selections editor) \<and> \<not> isEmpty s \<and> contains s (position q) \<and>
         b = \<lparr>humanize = False, comment = getText editor s, block_range = s\<rparr>)) \<and>
   (\<forall>d. documents c (textDocument_uri q) = Some d \<and> commentParseCache c (cacheKey d) = None \<and>
        createGrammar e (languageId d) = None \<longrightarrow>
      getComment e c q = (Fulfilled None, c, [CreateGrammar (languageId d)]))"
proof (intro conjI)
  show "documents c (textDocument_uri q) = None \<longrightarrow> getComment e c q = (Fulfilled None, c, [])"
    by (simp add: getComment_no_document)
  show "\<forall>d c1 ev1. documents c (textDocument_uri q) = Some d \<and>
        getCommentParse e c d = (None, c1, ev1) \<longrightarrow>
      getComment e c q = (Fulfilled None, c, [CreateGrammar (languageId d)])"
  proof (intro allI impI)
    fix d c1 ev1
    assume a: "documents c (textDocument_uri q) = Some d \<and> getCommentParse e c d = (None, c1, ev1)"
    then have doc: "documents c (textDocument_uri q) = Some d"
      and p0: "getCommentParse e c d = (None, c1, ev1)" by simp_all
    from getCommentParse_None [OF p0] have "c1 = c" and "ev1 = [CreateGrammar (languageId d)]"
      by simp_all
    with getComment_no_parse [OF doc p0]
    show "getComment e c q = (Fulfilled None, c, [CreateGrammar (languageId d)])" by simp
  qed
  show "SelectionContains q \<in> set (snd (snd (getComment e c q))) \<longleftrightarrow>
      (\<exists>d p c1 ev1. documents c (textDocument_uri q) = Some d \<and>
         getCommentParse e c d = (Some p, c1, ev1))"
    by (rule getComment_host_asked_iff)
  show "\<forall>d p c1 ev1. documents c (textDocument_uri q) = Some d \<and>
        getCommentParse e c d = (Some p, c1, ev1) \<longrightarrow>
      take (Suc (length ev1)) (snd (snd (getComment e c q))) = ev1 @ [SelectionContains q] \<and>
      filter isComputeText ev1 = [] \<and> filter isTranslate ev1 = [] \<and>
      filter isComputeText (snd (snd (getComment e c q))) =
        (if sendRequest e q = Fulfilled None then [ComputeText p (position q)] else []) \<and>
      (\<forall>b. sendRequest e q = Fulfilled (Some b) \<longrightarrow>
         snd (snd (getComment e c q)) =
           ev1 @ [SelectionContains q,
                  Translate (if humanize b then humanizeString e (comment b) else comment b)
                    (preferredLanguage (setting c))] \<and>
         fst (getComment e c q) \<noteq> Fulfilled None \<and>
         (\<forall>h. fst (getComment e c q) = Fulfilled (Some h) \<longrightarrow>
            hover_range h = block_range b))"
  proof (intro allI impI)
    fix d p c1 ev1
    assume a: "documents c (textDocument_uri q) = Some d \<and>
        getCommentParse e c d = (Some p, c1, ev1)"
    then have doc: "documents c (textDocument_uri q) = Some d"
      and p1: "getCommentParse e c d = (Some p, c1, ev1)" by simp_all
    from getComment_asks_host [OF doc p1] getCommentParse_events [OF p1]
    show "take (Suc (length ev1)) (snd (snd (getComment e c q))) = ev1 @ [SelectionContains q] \<and>
      filter isComputeText ev1 = [] \<and> filter isTranslate ev1 = [] \<and>
      filter isComputeText (snd (snd (getComment e c q))) =
        (if sendRequest e q = Fulfilled None then [ComputeText p (position q)] else []) \<and>
      (\<forall>b. sendRequest e q = Fulfilled (Some b) \<longrightarrow>
         snd (snd (getComment e c q)) =
           ev1 @ [SelectionContains q,
                  Translate (if humanize b then humanizeString e (comment b) else comment b)
                    (preferredLanguage (setting c))] \<and>
         fst (getComment e c q) \<noteq> Fulfilled None \<and>
         (\<forall>h. fst (getComment e c q) = Fulfilled (Some h) \<longrightarrow>
            hover_range h = block_range b))"
      by blast
  qed
  show "\<forall>ed b. selectionContains ed q = Some b \<longrightarrow>
      (\<exists>editor s. ed = Some editor \<and> document_uri editor = textDocument_uri q \<and>
         s \<in> set (selections editor) \<and> \<not> isEmpty s \<and> contains s (position q) \<and>
         b = \<lparr>humanize = False, comment = getText editor s, block_range = s\<rparr>)"
    using selectionContains_Some by blast
  show "\<forall>d. documents c (textDocument_uri q) = Some d \<and>
        commentParseCache c (cacheKey d) = None \<and> createGrammar e (languageId d) = None \<longrightarrow>
      getComment e c q = (Fulfilled None, c, [CreateGrammar (languageId d)])"
    by (auto simp: getComment_no_parse [OF _ getCommentParse_no_grammar])
qed

text \<open>
  The claim as stated fails for a document without a grammar: the host has a block for the
  position, yet \<open>getComment\<close> returns nothing and never asks the host.
\<close>

theorem host_not_asked_without_grammar:
  "sendRequest (example_env (Some (example_editor ''file:///b.txt'')))
      (example_query ''file:///b.txt'' 5 2) =
     Fulfilled (Some \<lparr>humanize = False, comment = ''hello'',
                       block_range = example_range 5 0 5 5\<rparr>) \<and>
   getComment (example_env (Some (example_editor ''file:///b.txt'')))
      (didOpen example_start example_txt) (example_query ''file:///b.txt'' 5 2) =
     (Fulfilled None, didOpen example_start example_txt, [CreateGrammar ''plaintext''])"
  by (simp add: example_defs server_defs)

theorem host_block_first_witness:
  "documents (didOpen example_start example_js)
      (textDocument_uri (example_query ''file:///a.js'' 5 2)) = Some example_js \<and>
   sendRequest (example_env (Some (example_editor ''file:///a.js'')))
      (example_query ''file:///a.js'' 5 2) =
     Fulfilled (Some \<lparr>humanize = False, comment = ''hello'',
                       block_range = example_range 5 0 5 5\<rparr>) \<and>
   snd (snd (getComment (example_env (Some (example_editor ''file:///a.js'')))
               (didOpen example_start example_js) (example_query ''file:///a.js'' 5 2))) =
     [CreateGrammar ''javascript'', SelectionContains (example_query ''file:///a.js'' 5 2),
      Translate ''hello'' ''en''] \<and>
   filter isComputeText
     (snd (snd (getComment (example_env (Some (example_editor ''file:///a.js'')))
               (didOpen example_start example_js) (example_query ''file:///a.js'' 5 2)))) = [] \<and>
   fst (getComment (example_env (Some (example_editor ''file:///a.js'')))
          (didOpen example_start example_js) (example_query ''file:///a.js'' 5 2)) =
     Fulfilled (Some \<lparr>contents = [''en: hello''], hover_range = example_range 5 0 5 5\<rparr>) \<and>
   documents (didOpen example_start example_txt)
      (textDocument_uri (example_query ''file:///b.txt'' 5 2)) = Some example_txt \<and>
   getCommentParse (example_env (Some (example_editor ''file:///b.txt'')))
      (didOpen example_start example_txt) example_txt =
     (None, didOpen example_start example_txt, [CreateGrammar ''plaintext'']) \<and>
   getComment (example_env (Some (example_editor ''file:///b.txt'')))
      (didOpen example_start example_txt) (example_query ''file:///b.txt'' 5 2) =
     (Fulfilled None, didOpen example_start example_txt, [CreateGrammar (languageId example_txt)])"
proof -
  let ?e = "example_env (Some (example_editor ''file:///a.js''))"
  let ?s = "didOpen example_start example_js"
  let ?q = "example_query ''file:///a.js'' 5 2"
  let ?b = "\<lparr>humanize = False, comment = ''hello'', block_range = example_range 5 0 5 5\<rparr>"
  let ?e' = "example_env (Some (example_editor ''file:///b.txt''))"
  let ?s' = "didOpen example_start example_txt"
  let ?q' = "example_query ''file:///b.txt'' 5 2"
  have doc: "documents ?s (textDocument_uri ?q) = Some example_js"
    by (simp add: example_defs server_defs)
  have parse: "getCommentParse ?e ?s example_js =
      (Some \<lparr>parse_textDocument = example_js, parse_grammar = Grammar ''javascript'',
              parse_multiLineMerge = False\<rparr>,
       fst (snd (getCommentParse ?e ?s example_js)), [CreateGrammar ''javascript''])"
    by (simp add: example_defs server_defs)
  have host: "sendRequest ?e ?q = Fulfilled (Some ?b)"
    by (simp add: example_defs server_defs)
  have lang: "preferredLanguage (setting ?s) = ''en''"
    by (simp add: example_defs server_defs)
  have res: "fst (getComment ?e ?s ?q) =
     Fulfilled (Some \<lparr>contents = [''en: hello''], hover_range = example_range 5 0 5 5\<rparr>)"
    by (simp add: example_defs server_defs)
  note T = host_block_first [of ?s ?q ?e, THEN conjunct2, THEN conjunct2, THEN conjunct2,
      THEN conjunct1, rule_format, OF conjI, OF doc parse]
  from T host lang
  have ev: "snd (snd (getComment ?e ?s ?q)) =
          [CreateGrammar ''javascript'', SelectionContains ?q, Translate ''hello'' ''en'']"
    and nopipe: "filter isComputeText (snd (snd (getComment ?e ?s ?q))) = []"
    by simp_all
  have doc': "documents ?s' (textDocument_uri ?q') = Some example_txt"
    by (simp add: example_defs server_defs)
  have parse': "getCommentParse ?e' ?s' example_txt = (None, ?s', [CreateGrammar ''plaintext''])"
    by (simp add: example_defs server_defs)
  from host_block_first [of ?s' ?q' ?e', THEN conjunct2, THEN conjunct1, rule_format, OF conjI,
      OF doc' parse']
  have absent: "getComment ?e' ?s' ?q' =
     (Fulfilled None, ?s', [CreateGrammar (languageId example_txt)])" .
  from doc host ev nopipe res doc' parse' absent show ?thesis by blast
qed





section \<open>Cache keys and cached settings\<close>

lemma no_grammar_absent:
  "documents c (textDocument_uri q) = Some d \<Longrightarrow> commentParseCache c (cacheKey d) = None \<Longrightarrow>
   createGrammar e (languageId d) = None \<Longrightarrow>
     getComment e c q = (Fulfilled None, c, [CreateGrammar (languageId d)])"
  by (simp add: getComment_no_parse [OF _ getCommentParse_no_grammar])

text \<open>
  C2. A document whose language has no grammar gets no parse object and no hover as long as
  nothing is cached under its key (\<open>no_grammar_absent\<close>). The key is the language id, a
  hyphen and the URI, so two documents can share it: below, \<open>objective-c\<close> with \<open>file:///x\<close> and \<open>objective\<close> with
  \<open>c-file:///x\<close>. Once the first has been queried, a query on the second, whose language
  has no grammar, finds the first one's parse object, runs the pipeline on it and
  translates.
\<close>

theorem cache_key_collision:
  "createGrammar (example_env None) (languageId example_obj) = None \<and>
   cacheKey example_obj = cacheKey example_objc \<and>
   reachable (example_env None) ''en''
     (fst (snd (getComment (example_env None)
                  (didOpen (didOpen example_start example_objc) example_obj)
                  (example_query ''file:///x'' 0 0)))) \<and>
   documents
     (fst (snd (getComment (example_env None)
                  (didOpen (didOpen example_start example_objc) example_obj)
                  (example_query ''file:///x'' 0 0)))) ''c-file:///x'' = Some example_obj \<and>
   getComment (example_env None)
     (fst (snd (getComment (example_env None)
                  (didOpen (didOpen example_start example_objc) example_obj)
                  (example_query ''file:///x'' 0 0))))
     (example_query ''c-file:///x'' 0 0) =
     (Fulfilled (Some \<lparr>contents = [''Do it now => en: Do it now''],
                        hover_range = example_range 0 0 0 12\<rparr>),
      fst (snd (getComment (example_env None)
                  (didOpen (didOpen example_start example_objc) example_obj)
                  (example_query ''file:///x'' 0 0))),
      [SelectionContains (example_query ''c-file:///x'' 0 0),
       ComputeText \<lparr>parse_textDocument = example_objc, parse_grammar = Grammar ''objective-c'',
                    parse_multiLineMerge = False\<rparr> \<lparr>line = 0, character = 0\<rparr>,
       Translate ''Do it now'' ''en''])"
proof -
  let ?e = "example_env None"
  let ?s0 = "didOpen example_start example_objc"
  let ?s1 = "didOpen ?s0 example_obj"
  let ?q1 = "example_query ''file:///x'' 0 0"
  let ?s2 = "fst (snd (getComment ?e ?s1 ?q1))"
  have r: "reachable ?e ''en'' example_start"
    unfolding example_start_def by (rule reachable.start)
  have "documents example_start (uri example_objc) = None"
    by (simp add: example_defs server_defs)
  with r have r0: "reachable ?e ''en'' ?s0" by (rule reachable.opened)
  have "documents ?s0 (uri example_obj) = None"
    by (simp add: example_defs server_defs)
  with r0 have r1: "reachable ?e ''en'' ?s1" by (rule reachable.opened)
  have "getComment ?e ?s1 ?q1 = (fst (getComment ?e ?s1 ?q1), ?s2, snd (snd (getComment ?e ?s1 ?q1)))"
    by simp
  with r1 have r2: "reachable ?e ''en'' ?s2" by (rule reachable.queried)
  have g: "createGrammar ?e (languageId example_obj) = None"
    by (simp add: example_defs)
  have k: "cacheKey example_obj = cacheKey example_objc"
    by (simp add: example_defs cacheKey_def)
  have s2: "?s2 = ?s1\<lparr>commentParseCache := (commentParseCache ?s1)(''objective-c-file:///x'' \<mapsto>
       \<lparr>parse_textDocument = example_objc, parse_grammar = Grammar ''objective-c'',
        parse_multiLineMerge = False\<rparr>)\<rparr>"
    by (simp add: getComment_state getCommentParse_state example_defs
          Comment_constructor_def didOpen_def onDidChangeContent_def removeCommentParse_def
          cacheKey_def)
  have d: "documents ?s2 ''c-file:///x'' = Some example_obj"
    unfolding s2 by (simp add: example_defs server_defs)
  have run: "getComment ?e ?s2 (example_query ''c-file:///x'' 0 0) =
     (Fulfilled (Some \<lparr>contents = [''Do it now => en: Do it now''],
                        hover_range = example_range 0 0 0 12\<rparr>),
      ?s2,
      [SelectionContains (example_query ''c-file:///x'' 0 0),
       ComputeText \<lparr>parse_textDocument = example_objc, parse_grammar = Grammar ''objective-c'',
                    parse_multiLineMerge = False\<rparr> \<lparr>line = 0, character = 0\<rparr>,
       Translate ''Do it now'' ''en''])"
    unfolding s2 by (simp add: example_defs server_defs)
  from g k r2 d run show ?thesis by blast
qed

text \<open>
  C4. The parse object keeps the \<open>multiLineMerge\<close> it was built with, and \<open>setSetting\<close> leaves
  the cache alone. After a query has cached the parse object of a document and
  \<open>setSetting\<close> has switched \<open>multiLineMerge\<close> on, the next query on that document still
  runs the pipeline with \<open>multiLineMerge\<close> off, while the new target language is used at
  once; on a document queried for the first time after the update the new value is used.
\<close>

theorem stale_multiLineMerge:
  "multiLineMerge
     (setting (setSetting (example_env None)
        (fst (snd (getComment (example_env None) (didOpen example_start example_js)
                     (example_query ''file:///a.js'' 1 0))))
        \<lparr>new_multiLineMerge = True, new_preferredLanguage = Some ''French''\<rparr>)) = True \<and>
   getComment (example_env None)
     (setSetting (example_env None)
        (fst (snd (getComment (example_env None) (didOpen example_start example_js)
                     (example_query ''file:///a.js'' 1 0))))
        \<lparr>new_multiLineMerge = True, new_preferredLanguage = Some ''French''\<rparr>)
     (example_query ''file:///a.js'' 1 0) =
     (Fulfilled (Some \<lparr>contents = [''fr: part one''], hover_range = example_range 1 0 1 11\<rparr>),
      setSetting (example_env None)
        (fst (snd (getComment (example_env None) (didOpen example_start example_js)
                     (example_query ''file:///a.js'' 1 0))))
        \<lparr>new_multiLineMerge = True, new_preferredLanguage = Some ''French''\<rparr>,
      [SelectionContains (example_query ''file:///a.js'' 1 0),
       ComputeText \<lparr>parse_textDocument = example_js, parse_grammar = Grammar ''javascript'',
                    parse_multiLineMerge = False\<rparr> \<lparr>line = 1, character = 0\<rparr>,
       Translate ''part one'' ''fr'']) \<and>
   fst (getComment (example_env None)
     (setSetting (example_env None) (didOpen example_start example_js)
        \<lparr>new_multiLineMerge = True, new_preferredLanguage = Some ''French''\<rparr>)
     (example_query ''file:///a.js'' 1 0)) =
     Fulfilled (Some \<lparr>contents = [''fr: part one part two''],
                       hover_range = example_range 1 0 2 11\<rparr>)"
proof -
  let ?e = "example_env None"
  let ?s1 = "didOpen example_start example_js"
  let ?q = "example_query ''file:///a.js'' 1 0"
  let ?n = "\<lparr>new_multiLineMerge = True, new_preferredLanguage = Some ''French''\<rparr>"
  let ?s2 = "fst (snd (getComment ?e ?s1 ?q))"
  have s2: "?s2 = ?s1\<lparr>commentParseCache := (commentParseCache ?s1)(''javascript-file:///a.js'' \<mapsto>
       \<lparr>parse_textDocument = example_js, parse_grammar = Grammar ''javascript'',
        parse_multiLineMerge = False\<rparr>)\<rparr>"
    by (simp add: getComment_state getCommentParse_state example_defs
          Comment_constructor_def didOpen_def onDidChangeContent_def removeCommentParse_def
          cacheKey_def)
  have a: "multiLineMerge (setting (setSetting ?e ?s2 ?n)) = True"
    by (simp add: setSetting_def assignSetting_def Let_def)
  have b: "getComment ?e (setSetting ?e ?s2 ?n) ?q =
     (Fulfilled (Some \<lparr>contents = [''fr: part one''], hover_range = example_range 1 0 1 11\<rparr>),
      setSetting ?e ?s2 ?n,
      [SelectionContains ?q,
       ComputeText \<lparr>parse_textDocument = example_js, parse_grammar = Grammar ''javascript'',
                    parse_multiLineMerge = False\<rparr> \<lparr>line = 1, character = 0\<rparr>,
       Translate ''part one'' ''fr''])"
    unfolding s2 by (simp add: example_defs server_defs)
  have c: "fst (getComment ?e (setSetting ?e ?s1 ?n) ?q) =
     Fulfilled (Some \<lparr>contents = [''fr: part one part two''],
                       hover_range = example_range 1 0 2 11\<rparr>)"
    by (simp add: example_defs server_defs)
  from a b c show ?thesis by blast
qed

lemma getCommentParse_miss_resumed:
  "commentParseCache c (cacheKey d) = None \<Longrightarrow>
     getCommentParse e c d =
       (fst (getCommentParse_resumed c d (createGrammar e (languageId d))),
        snd (getCommentParse_resumed c d (createGrammar e (languageId d))),
        [CreateGrammar (languageId d)])"
  by (simp add: getCommentParse_def getCommentParse_resumed_def Let_def split: option.split)

text \<open>
  A query reads the open document and misses the cache; the document is closed while the
  query awaits the grammar; the query then files an entry for the closed document.
\<close>

lemma entry_filed_after_close:
  "documents (didOpen example_start example_js) ''file:///a.js'' = Some example_js \<and>
   commentParseCache (didOpen example_start example_js) (cacheKey example_js) = None \<and>
   documents (didClose (didOpen example_start example_js) ''file:///a.js'') ''file:///a.js'' = None \<and>
   commentParseCache
     (snd (getCommentParse_resumed (didClose (didOpen example_start example_js) ''file:///a.js'')
             example_js (createGrammar (example_env None) (languageId example_js))))
     (cacheKey example_js) =
     Some \<lparr>parse_textDocument = example_js, parse_grammar = Grammar ''javascript'',
           parse_multiLineMerge = False\<rparr>"
  by (simp add: getCommentParse_resumed_def example_defs server_defs)

text \<open>
  C3. The key of the cache is the language id, a hyphen and the URI, and two documents that
  differ in both can have the same key. Below, \<open>objective-c\<close> with \<open>file:///x\<close> and
  \<open>objective\<close> with \<open>c-file:///x\<close> are open. After a query on the first, the cache holds
  one entry; the parse step of a query on the second returns that entry and files none of
  its own; and closing the second removes the entry, although the first is still open and
  has not changed.
\<close>

theorem cache_entry_shared:
  "languageId example_objc \<noteq> languageId example_obj \<and>
   uri example_objc \<noteq> uri example_obj \<and>
   cacheKey example_objc = cacheKey example_obj \<and>
   commentParseCache
     (fst (snd (getComment (example_env None)
                  (didOpen (didOpen example_start example_objc) example_obj)
                  (example_query ''file:///x'' 0 0))))
     (cacheKey example_objc) =
     Some \<lparr>parse_textDocument = example_objc, parse_grammar = Grammar ''objective-c'',
           parse_multiLineMerge = False\<rparr> \<and>
   getCommentParse (example_env None)
     (fst (snd (getComment (example_env None)
                  (didOpen (didOpen example_start example_objc) example_obj)
                  (example_query ''file:///x'' 0 0))))
     example_obj =
     (Some \<lparr>parse_textDocument = example_objc, parse_grammar = Grammar ''objective-c'',
             parse_multiLineMerge = False\<rparr>,
      fst (snd (getComment (example_env None)
                  (didOpen (didOpen example_start example_objc) example_obj)
                  (example_query ''file:///x'' 0 0))),
      []) \<and>
   documents
     (didClose
        (fst (snd (getComment (example_env None)
                     (didOpen (didOpen example_start example_objc) example_obj)
                     (example_query ''file:///x'' 0 0))))
        ''c-file:///x'') ''file:///x'' = Some example_objc \<and>
   commentParseCache
     (didClose
        (fst (snd (getComment (example_env None)
                     (didOpen (didOpen example_start example_objc) example_obj)
                     (example_query ''file:///x'' 0 0))))
        ''c-file:///x'') (cacheKey example_objc) = None"
proof -
  let ?e = "example_env None"
  let ?s1 = "didOpen (didOpen example_start example_objc) example_obj"
  let ?s2 = "fst (snd (getComment ?e ?s1 (example_query ''file:///x'' 0 0)))"
  let ?p = "\<lparr>parse_textDocument = example_objc, parse_grammar = Grammar ''objective-c'',
             parse_multiLineMerge = False\<rparr>"
  have s2: "?s2 = ?s1\<lparr>commentParseCache := (commentParseCache ?s1)(''objective-c-file:///x'' \<mapsto> ?p)\<rparr>"
    by (simp add: getComment_state getCommentParse_state example_defs
          Comment_constructor_def didOpen_def onDidChangeContent_def removeCommentParse_def
          cacheKey_def)
  have l: "languageId example_objc \<noteq> languageId example_obj"
    and u: "uri example_objc \<noteq> uri example_obj"
    and k: "cacheKey example_objc = cacheKey example_obj"
    by (simp_all add: example_defs cacheKey_def)
  have held: "commentParseCache ?s2 (cacheKey example_objc) = Some ?p"
    unfolding s2 by (simp add: example_defs server_defs)
  have reuse: "getCommentParse ?e ?s2 example_obj = (Some ?p, ?s2, [])"
    using held unfolding k by (rule getCommentParse_hit)
  have still: "documents (didClose ?s2 ''c-file:///x'') ''file:///x'' = Some example_objc"
    unfolding s2 by (simp add: example_defs server_defs)
  have gone: "commentParseCache (didClose ?s2 ''c-file:///x'') (cacheKey example_objc) = None"
    unfolding s2 by (simp add: example_defs server_defs)
  from l u k held reuse still gone show ?thesis by (intro conjI)
qed

section \<open>Settings\<close>

lemma setSetting_lookup:
  "preferredLanguage (setting (setSetting e c n)) =
     (case find (\<lambda>x. lang_name x =
                   (case new_preferredLanguage n of
                      None \<Rightarrow> preferredLanguage (setting c)
                    | Some l \<Rightarrow> if l = [] then preferredLanguage (setting c) else l))
                (languages e) of
        Some el \<Rightarrow> lang_value el
      | None \<Rightarrow> ''en'') \<and>
   multiLineMerge (setting (setSetting e c n)) = new_multiLineMerge n"
  by (simp add: setSetting_def assignSetting_def Let_def)

text \<open>
  C8. A call with the name \<open>French\<close> stores the code \<open>fr\<close>. A following call without a
  language, or with the empty one, puts the stored \<open>fr\<close> back as the value to keep and then
  looks it up as a name; the table has no language of that name, so \<open>en\<close> is stored. The
  same happens to the language the object was constructed with. The stored language is not
  retained.
\<close>

theorem preferredLanguage_not_retained:
  "preferredLanguage (setting (setSetting (example_env None) example_start
      \<lparr>new_multiLineMerge = False, new_preferredLanguage = Some ''French''\<rparr>)) = ''fr'' \<and>
   preferredLanguage (setting (setSetting (example_env None)
      (setSetting (example_env None) example_start
         \<lparr>new_multiLineMerge = False, new_preferredLanguage = Some ''French''\<rparr>)
      \<lparr>new_multiLineMerge = False, new_preferredLanguage = None\<rparr>)) = ''en'' \<and>
   preferredLanguage (setting (setSetting (example_env None)
      (setSetting (example_env None) example_start
         \<lparr>new_multiLineMerge = False, new_preferredLanguage = Some ''French''\<rparr>)
      \<lparr>new_multiLineMerge = False, new_preferredLanguage = Some []\<rparr>)) = ''en'' \<and>
   preferredLanguage (setting (Comment_constructor ''fr'' Map.empty)) = ''fr'' \<and>
   preferredLanguage (setting (setSetting (example_env None) (Comment_constructor ''fr'' Map.empty)
      \<lparr>new_multiLineMerge = False, new_preferredLanguage = None\<rparr>)) = ''en''"
  by (simp add: example_defs setSetting_def assignSetting_def Comment_constructor_def Let_def)

section \<open>Translating a selection twice\<close>





end
